theory Spec2Isabelle
  imports Main "HOL-Library.Multiset"
begin

section \<open>JavaScript values and the platform\<close>

text \<open>
  The page script \<^verbatim>\<open>assets/scripts/main.js\<close> moves untyped JavaScript values between the
  network, \<^verbatim>\<open>localStorage\<close> and the document. A recipe is whatever \<^verbatim>\<open>body.json()\<close>
  produced; the script never looks inside it. Numbers are kept as integers: the script does
  no arithmetic on them and only their truthiness could ever matter. \<open>Infinity\<close> is what
  parsing gives for a number literal beyond the range of a double, such as \<^verbatim>\<open>1e400\<close>.
\<close>

datatype jsval =
    Undefined
  | Null
  | Bool bool
  | Num int
  | Infinity
  | Str string
  | Arr "jsval list"
  | Obj "(string \<times> jsval) list"

text \<open>What \<^verbatim>\<open>if (v)\<close> and \<^verbatim>\<open>!v\<close> test.\<close>

fun truthy :: "jsval \<Rightarrow> bool" where
  "truthy Undefined = False"
| "truthy Null = False"
| "truthy (Bool b) = b"
| "truthy (Num n) = (n \<noteq> 0)"
| "truthy Infinity = True"
| "truthy (Str s) = (s \<noteq> [])"
| "truthy (Arr vs) = True"
| "truthy (Obj kvs) = True"

text \<open>Values that are thrown, or that a promise is rejected with.\<close>

datatype exn = TypeError string | SyntaxError string | DOMException string

text \<open>An error in a template literal: its name, a colon and its message.\<close>

fun exn_text :: "exn \<Rightarrow> string" where
  "exn_text (TypeError m) = ''TypeError: '' @ m"
| "exn_text (SyntaxError m) = ''SyntaxError: '' @ m"
| "exn_text (DOMException m) = ''Error: '' @ m"

text \<open>
  The platform's \<^verbatim>\<open>JSON\<close> object is not part of the script, so it is a parameter:
  \<open>parse\<close> gives \<open>None\<close> where \<^verbatim>\<open>JSON.parse\<close> throws.
\<close>

record json =
  parse :: "string \<Rightarrow> jsval option"
  stringify :: "jsval \<Rightarrow> string"

text \<open>
  How the chain \<^verbatim>\<open>fetch(url).then(body => body.json().then(...))\<close> ends for one URL:
  the request is rejected, the body fails to parse, or the body parses to a value.
\<close>

datatype response = FetchRejected exn | BodyRejected exn | BodyParsed jsval

type_synonym network = "string \<Rightarrow> response"

text \<open>The state of a promise.\<close>

datatype promise = Pending | Fulfilled jsval | Rejected exn

definition resolve :: "jsval \<Rightarrow> promise \<Rightarrow> promise" where
  "resolve v p = (case p of Pending \<Rightarrow> Fulfilled v | _ \<Rightarrow> p)"

definition reject :: "exn \<Rightarrow> promise \<Rightarrow> promise" where
  "reject e p = (case p of Pending \<Rightarrow> Rejected e | _ \<Rightarrow> p)"

text \<open>
  A \<^verbatim>\<open>ServiceWorkerRegistration\<close>, as far as the script reads it: whether each of its three
  worker slots is set.
\<close>

record registration =
  installing :: bool
  waiting :: bool
  active :: bool

text \<open>
  \<^verbatim>\<open>navigator\<close>: \<open>serviceWorker\<close> is \<open>None\<close> when \<^verbatim>\<open>"serviceWorker" in navigator\<close> is false,
  and otherwise says how \<^verbatim>\<open>register(script)\<close> ends.
\<close>

record navigator =
  serviceWorker :: "(string \<Rightarrow> exn + registration) option"

section \<open>The page's state\<close>

datatype log = LogError exn | LogErrorText string | LogText string

record element =
  tag :: string
  data :: jsval

datatype handler = RegisterWorker

text \<open>
  Everything the script reads or changes: the storage area, the console, the requests sent
  so far, the children of the document's \<^verbatim>\<open><main>\<close> (\<open>None\<close> when
  \<^verbatim>\<open>document.querySelector('main')\<close> is \<^verbatim>\<open>null\<close>), the listeners added to the window and
  the worker scripts whose registration was attempted. \<open>room\<close> is what the storage quota
  leaves for the item \<^verbatim>\<open>"recipes"\<close>, the only key the script writes: the quota less the
  space the other keys take.
\<close>

record world =
  localStorage :: "string \<rightharpoonup> string"
  console :: "log list"
  fetched :: "string list"
  main_children :: "element list option"
  listeners :: "(string \<times> handler) list"
  registered :: "string list"
  room :: nat

text \<open>
  The storage area is a map from keys to strings: \<^verbatim>\<open>getItem\<close> gives \<^verbatim>\<open>null\<close> (\<open>None\<close>)
  for a missing key, and \<^verbatim>\<open>setItem\<close> replaces the value, unless key and value together
  exceed the room: then it throws a \<^verbatim>\<open>QuotaExceededError\<close> and stores nothing.
\<close>

definition getItem :: "string \<Rightarrow> world \<Rightarrow> string option" where
  "getItem k w = localStorage w k"

definition setItem :: "string \<Rightarrow> string \<Rightarrow> world \<Rightarrow> exn + world" where
  "setItem k v w =
     (if length k + length v \<le> room w
      then Inr (w\<lparr>localStorage := (localStorage w)(k \<mapsto> v)\<rparr>)
      else Inl (DOMException ''QuotaExceededError''))"

definition console_error :: "exn \<Rightarrow> world \<Rightarrow> world" where
  "console_error e w = w\<lparr>console := console w @ [LogError e]\<rparr>"

definition console_error_text :: "string \<Rightarrow> world \<Rightarrow> world" where
  "console_error_text s w = w\<lparr>console := console w @ [LogErrorText s]\<rparr>"

definition console_log :: "string \<Rightarrow> world \<Rightarrow> world" where
  "console_log s w = w\<lparr>console := console w @ [LogText s]\<rparr>"

section \<open>Constants\<close>

definition RECIPE_URLS :: "string list" where
  "RECIPE_URLS =
    [''https://introweb.tech/assets/json/1_50-thanksgiving-side-dishes.json'',
     ''https://introweb.tech/assets/json/2_roasting-turkey-breast-with-stuffing.json'',
     ''https://introweb.tech/assets/json/3_moms-cornbread-stuffing.json'',
     ''https://introweb.tech/assets/json/4_50-indulgent-thanksgiving-side-dishes-for-any-holiday-gathering.json'',
     ''https://introweb.tech/assets/json/5_healthy-thanksgiving-recipe-crockpot-turkey-breast.json'',
     ''https://introweb.tech/assets/json/6_one-pot-thanksgiving-dinner.json'']"

section \<open>saveRecipesToStorage\<close>

definition saveRecipesToStorage :: "json \<Rightarrow> jsval list \<Rightarrow> world \<Rightarrow> exn + world" where
  "saveRecipesToStorage J recipes w = setItem ''recipes'' (stringify J (Arr recipes)) w"

section \<open>getRecipes\<close>

text \<open>
  The variables the promise executor of \<^verbatim>\<open>getRecipes\<close> closes over: the array being filled,
  the counter, and the promise it settles.
\<close>

record loader =
  recipes :: "jsval list"
  finished :: nat
  settled :: promise

text \<open>The callback \<^verbatim>\<open>err\<close>: log the error and reject.\<close>

definition err :: "exn \<Rightarrow> loader \<times> world \<Rightarrow> loader \<times> world" where
  "err e = (\<lambda>(l, w). (l\<lparr>settled := reject e (settled l)\<rparr>, console_error e w))"

text \<open>
  The callback given to \<^verbatim>\<open>body.json().then\<close>: push, count, and once the count reaches
  the number of URLs, save and resolve. When \<^verbatim>\<open>saveRecipesToStorage\<close> throws, the callback
  ends there, before \<^verbatim>\<open>resolve\<close>, and the \<^verbatim>\<open>.catch(err)\<close> that follows the \<^verbatim>\<open>.then\<close> gets
  the exception.
\<close>

definition on_json :: "json \<Rightarrow> jsval \<Rightarrow> loader \<times> world \<Rightarrow> loader \<times> world" where
  "on_json J v = (\<lambda>(l, w).
     let l' = l\<lparr>recipes := recipes l @ [v], finished := finished l + 1\<rparr>
     in if finished l' \<ge> length RECIPE_URLS
        then (case saveRecipesToStorage J (recipes l') w of
                Inl e \<Rightarrow> err e (l', w)
              | Inr w' \<Rightarrow> (l'\<lparr>settled := resolve (Arr (recipes l')) (settled l')\<rparr>, w'))
        else (l', w))"

text \<open>The chain of one URL completes.\<close>

definition complete :: "json \<Rightarrow> network \<Rightarrow> string \<Rightarrow> loader \<times> world \<Rightarrow> loader \<times> world" where
  "complete J net url =
     (case net url of
        FetchRejected e \<Rightarrow> err e
      | BodyRejected e \<Rightarrow> err e
      | BodyParsed v \<Rightarrow> on_json J v)"

text \<open>
  The network part of \<^verbatim>\<open>getRecipes\<close> (lines 120 to 139). The loop sends all the requests
  before any callback runs. Which chains complete, and in what order, is the scheduler's
  choice: \<open>order\<close> lists the URLs whose chain completes, in completion order, and a URL that
  is not in it never completes. The result is the promise and the page once those chains
  have completed; a promise still \<open>Pending\<close> then is never settled. The array the promise
  is resolved with is the one the callbacks push to; no push follows the resolution when
  every chain completes at most once.
\<close>

definition fetchRecipes :: "json \<Rightarrow> network \<Rightarrow> string list \<Rightarrow> world \<Rightarrow> promise \<times> world" where
  "fetchRecipes J net order w =
     (let start = (\<lparr>recipes = [], finished = 0, settled = Pending\<rparr>,
                   w\<lparr>fetched := fetched w @ RECIPE_URLS\<rparr>);
          (l, w') = fold (complete J net) order start
      in (settled l, w'))"

text \<open>
  \<^verbatim>\<open>localStorage.getItem\<close> returns a string or \<^verbatim>\<open>null\<close>, and \<^verbatim>\<open>if (recipes)\<close> is false
  for \<^verbatim>\<open>null\<close> and for the empty string. An \<^verbatim>\<open>async\<close> function returns a promise:
  fulfilled at once on the storage path, the executor's promise on the network path.
\<close>

definition getRecipes :: "json \<Rightarrow> network \<Rightarrow> string list \<Rightarrow> world \<Rightarrow> promise \<times> world" where
  "getRecipes J net order w =
     (case getItem ''recipes'' w of
        None \<Rightarrow> fetchRecipes J net order w
      | Some s \<Rightarrow>
          if s = [] then fetchRecipes J net order w
          else (case parse J s of
                  Some v \<Rightarrow> (Fulfilled v, w)
                | None \<Rightarrow> (Fulfilled (Arr []), w)))"

section \<open>addRecipesToDocument\<close>

text \<open>
  \<^verbatim>\<open>recipes.forEach\<close> exists on arrays only, and \<^verbatim>\<open>main.append\<close> throws when \<^verbatim>\<open>main\<close> is
  \<^verbatim>\<open>null\<close>; both are a \<^verbatim>\<open>TypeError\<close>, thrown before anything was appended.
\<close>

definition recipe_card :: "jsval \<Rightarrow> element" where
  "recipe_card recipe = \<lparr>tag = ''recipe-card'', data = recipe\<rparr>"

fun forEach_append :: "jsval list \<Rightarrow> element list option \<Rightarrow> exn + element list option" where
  "forEach_append [] m = Inr m"
| "forEach_append (recipe # rest) None = Inl (TypeError ''main is null'')"
| "forEach_append (recipe # rest) (Some cs) = forEach_append rest (Some (cs @ [recipe_card recipe]))"

definition addRecipesToDocument :: "jsval \<Rightarrow> world \<Rightarrow> exn + world" where
  "addRecipesToDocument rs w =
     (if \<not> truthy rs then Inr w
      else case rs of
        Arr xs \<Rightarrow>
          (case forEach_append xs (main_children w) of
             Inl e \<Rightarrow> Inl e
           | Inr m \<Rightarrow> Inr (w\<lparr>main_children := m\<rparr>))
      | _ \<Rightarrow> Inl (TypeError ''recipes.forEach is not a function''))"

section \<open>initializeServiceWorker\<close>

definition initializeServiceWorker :: "navigator \<Rightarrow> world \<Rightarrow> world" where
  "initializeServiceWorker nav w =
     (if serviceWorker nav = None then w
      else w\<lparr>listeners := listeners w @ [(''load'', RegisterWorker)]\<rparr>)"

text \<open>The listener of lines 48 to 60, run when the event it was added for fires.\<close>

definition register_worker :: "navigator \<Rightarrow> world \<Rightarrow> world" where
  "register_worker nav w =
     (case serviceWorker nav of
        None \<Rightarrow> console_error (TypeError ''navigator.serviceWorker is undefined'') w
      | Some reg \<Rightarrow>
          (let w' = w\<lparr>registered := registered w @ [''./sw.js'']\<rparr>
           in case reg ''./sw.js'' of
                Inr r \<Rightarrow>
                  if installing r then console_log ''Service worker installing'' w'
                  else if waiting r then console_log ''Service worker installed'' w'
                  else if active r then console_log ''Service worker active'' w'
                  else w'
              | Inl e \<Rightarrow>
                  console_error_text (''Service worker registration failed: '' @ exn_text e) w'))"

fun run_handler :: "navigator \<Rightarrow> handler \<Rightarrow> world \<Rightarrow> world" where
  "run_handler nav RegisterWorker w = register_worker nav w"

definition dispatch :: "navigator \<Rightarrow> string \<Rightarrow> world \<Rightarrow> world" where
  "dispatch nav ev w =
     fold (\<lambda>(name, h) w'. if name = ev then run_handler nav h w' else w') (listeners w) w"

section \<open>init\<close>

text \<open>
  \<^verbatim>\<open>await\<close> resumes \<^verbatim>\<open>init\<close> only when the promise of \<^verbatim>\<open>getRecipes\<close> is settled; while
  it is pending nothing is rendered. An exception of \<^verbatim>\<open>addRecipesToDocument\<close> is not caught
  and rejects the promise of \<^verbatim>\<open>init\<close>. The rest of \<^verbatim>\<open>init\<close> is run on the page as the
  completed chains left it: callbacks that run after the promise settled write to the console
  only, so this fixes no more than the order of console lines.
\<close>

definition init :: "navigator \<Rightarrow> json \<Rightarrow> network \<Rightarrow> string list \<Rightarrow> world \<Rightarrow> promise \<times> world" where
  "init nav J net order w =
     (let w1 = initializeServiceWorker nav w;
          (p, w2) = getRecipes J net order w1
      in case p of
           Pending \<Rightarrow> (Pending, w2)
         | Fulfilled v \<Rightarrow>
             (case addRecipesToDocument v w2 of
                Inl e \<Rightarrow> (Rejected e, w2)
              | Inr w3 \<Rightarrow> (Fulfilled Undefined, w3))
         | Rejected e \<Rightarrow>
             (let w3 = console_error e w2
              in case addRecipesToDocument Undefined w3 of
                   Inl e' \<Rightarrow> (Rejected e', w3)
                 | Inr w4 \<Rightarrow> (Fulfilled Undefined, w4)))"

section \<open>Runs of the network part\<close>

text \<open>
  The values pushed and the errors passed to \<^verbatim>\<open>err\<close> while the chains of \<open>us\<close> complete,
  in completion order.
\<close>

fun bodies :: "network \<Rightarrow> string list \<Rightarrow> jsval list" where
  "bodies net [] = []"
| "bodies net (u # us) = (case net u of BodyParsed v \<Rightarrow> v # bodies net us | _ \<Rightarrow> bodies net us)"

fun errors :: "network \<Rightarrow> string list \<Rightarrow> exn list" where
  "errors net [] = []"
| "errors net (u # us) =
     (case net u of
        FetchRejected e \<Rightarrow> e # errors net us
      | BodyRejected e \<Rightarrow> e # errors net us
      | BodyParsed v \<Rightarrow> errors net us)"

text \<open>
  A chain completes at most once, and only the chains of the configured URLs exist.
\<close>

definition schedule :: "string list \<Rightarrow> bool" where
  "schedule order \<longleftrightarrow> distinct order \<and> set order \<subseteq> set RECIPE_URLS"

text \<open>The storage has room for the serialized collection under \<^verbatim>\<open>"recipes"\<close>.\<close>

definition fits :: "json \<Rightarrow> jsval list \<Rightarrow> world \<Rightarrow> bool" where
  "fits J rs w \<longleftrightarrow> length ''recipes'' + length (stringify J (Arr rs)) \<le> room w"

section \<open>A reference \<^verbatim>\<open>JSON\<close> for concrete runs\<close>

text \<open>
  The theorems below hold for every \<open>json\<close>. Concrete runs need one: this is compact JSON
  over \<^verbatim>\<open>null\<close>, booleans, integers, strings without escapes, arrays and objects, printed
  as \<^verbatim>\<open>JSON.stringify\<close> prints them (\<^verbatim>\<open>Infinity\<close> as \<^verbatim>\<open>null\<close>, and \<^verbatim>\<open>undefined\<close> as inside an
  array, \<^verbatim>\<open>null\<close> too) and read back with optional white space.
\<close>

definition quote :: char where "quote = CHR 0x22"

definition is_ws :: "char \<Rightarrow> bool" where
  "is_ws c = (c = CHR '' '' \<or> c = CHR 0x0A \<or> c = CHR 0x0D \<or> c = CHR 0x09)"

definition skip_ws :: "string \<Rightarrow> string" where
  "skip_ws s = dropWhile is_ws s"

definition digit_chars :: string where "digit_chars = ''0123456789''"

function show_nat :: "nat \<Rightarrow> string" where
  "show_nat n = (if n < 10 then [digit_chars ! n] else show_nat (n div 10) @ [digit_chars ! (n mod 10)])"
  by pat_completeness auto
termination by (relation "measure id") auto

definition show_int :: "int \<Rightarrow> string" where
  "show_int i = (if i < 0 then CHR ''-'' # show_nat (nat (- i)) else show_nat (nat i))"

fun commas :: "string list \<Rightarrow> string" where
  "commas [] = []"
| "commas [s] = s"
| "commas (s # t # ss) = s @ CHR '','' # commas (t # ss)"

definition show_string :: "string \<Rightarrow> string" where
  "show_string s = quote # s @ [quote]"

fun show_json :: "jsval \<Rightarrow> string" where
  "show_json Undefined = ''null''"
| "show_json Null = ''null''"
| "show_json (Bool b) = (if b then ''true'' else ''false'')"
| "show_json (Num i) = show_int i"
| "show_json Infinity = ''null''"
| "show_json (Str s) = show_string s"
| "show_json (Arr vs) = CHR ''['' # commas (map show_json vs) @ '']''"
| "show_json (Obj kvs) =
     CHR ''{'' # commas (map (\<lambda>(k, v). show_string k @ CHR '':'' # show_json v) kvs) @ ''}''"

fun read_string :: "string \<Rightarrow> (string \<times> string) option" where
  "read_string [] = None"
| "read_string (c # cs) =
     (if c = quote then Some ([], cs)
      else if c = CHR 0x5C then None
      else map_option (\<lambda>(s, r). (c # s, r)) (read_string cs))"

definition digit_val :: "char \<Rightarrow> nat option" where
  "digit_val c = (if c \<in> set digit_chars then Some (of_char c - 48) else None)"

fun read_digits :: "nat \<Rightarrow> string \<Rightarrow> nat \<times> string" where
  "read_digits acc [] = (acc, [])"
| "read_digits acc (c # cs) =
     (case digit_val c of None \<Rightarrow> (acc, c # cs) | Some d \<Rightarrow> read_digits (10 * acc + d) cs)"

definition read_nat :: "string \<Rightarrow> (nat \<times> string) option" where
  "read_nat s =
     (case s of
        [] \<Rightarrow> None
      | c # cs \<Rightarrow>
          (case digit_val c of
             None \<Rightarrow> None
           | Some d \<Rightarrow> if d = 0 then Some (0, cs) else Some (read_digits d cs)))"

fun read_value :: "nat \<Rightarrow> string \<Rightarrow> (jsval \<times> string) option"
and read_elements :: "nat \<Rightarrow> string \<Rightarrow> (jsval list \<times> string) option"
and read_members :: "nat \<Rightarrow> string \<Rightarrow> ((string \<times> jsval) list \<times> string) option" where
  "read_value 0 s = None"
| "read_value (Suc n) s =
     (case skip_ws s of
        [] \<Rightarrow> None
      | c # cs \<Rightarrow>
          if c = CHR ''['' then
            (case skip_ws cs of
               [] \<Rightarrow> None
             | d # ds \<Rightarrow>
                 if d = CHR '']'' then Some (Arr [], ds)
                 else map_option (\<lambda>(vs, r). (Arr vs, r)) (read_elements n cs))
          else if c = CHR ''{'' then
            (case skip_ws cs of
               [] \<Rightarrow> None
             | d # ds \<Rightarrow>
                 if d = CHR ''}'' then Some (Obj [], ds)
                 else map_option (\<lambda>(kvs, r). (Obj kvs, r)) (read_members n cs))
          else if c = quote then map_option (\<lambda>(t, r). (Str t, r)) (read_string cs)
          else if take 4 (c # cs) = ''null'' then Some (Null, drop 3 cs)
          else if take 4 (c # cs) = ''true'' then Some (Bool True, drop 3 cs)
          else if take 5 (c # cs) = ''false'' then Some (Bool False, drop 4 cs)
          else if c = CHR ''-'' then map_option (\<lambda>(k, r). (Num (- int k), r)) (read_nat cs)
          else map_option (\<lambda>(k, r). (Num (int k), r)) (read_nat (c # cs)))"
| "read_elements 0 s = None"
| "read_elements (Suc n) s =
     (case read_value n s of
        None \<Rightarrow> None
      | Some (v, r) \<Rightarrow>
          (case skip_ws r of
             [] \<Rightarrow> None
           | c # cs \<Rightarrow>
               if c = CHR '','' then map_option (\<lambda>(vs, r'). (v # vs, r')) (read_elements n cs)
               else if c = CHR '']'' then Some ([v], cs)
               else None))"
| "read_members 0 s = None"
| "read_members (Suc n) s =
     (case skip_ws s of
        [] \<Rightarrow> None
      | q # s1 \<Rightarrow>
          if q \<noteq> quote then None
          else
            (case read_string s1 of
               None \<Rightarrow> None
             | Some (k, s2) \<Rightarrow>
                 (case skip_ws s2 of
                    [] \<Rightarrow> None
                  | c # s3 \<Rightarrow>
                      if c \<noteq> CHR '':'' then None
                      else
                        (case read_value n s3 of
                           None \<Rightarrow> None
                         | Some (v, r) \<Rightarrow>
                             (case skip_ws r of
                                [] \<Rightarrow> None
                              | d # ds \<Rightarrow>
                                  if d = CHR '','' then
                                    map_option (\<lambda>(kvs, r'). ((k, v) # kvs, r')) (read_members n ds)
                                  else if d = CHR ''}'' then Some ([(k, v)], ds)
                                  else None)))))"

definition read_json :: "string \<Rightarrow> jsval option" where
  "read_json s =
     (case read_value (Suc (length s)) s of
        None \<Rightarrow> None
      | Some (v, r) \<Rightarrow> if skip_ws r = [] then Some v else None)"

definition JSON :: json where
  "JSON = \<lparr>parse = read_json, stringify = show_json\<rparr>"


text \<open>
  A fresh page with an empty \<^verbatim>\<open><main>\<close> and five megabytes of storage, the same page with
  the storage full, and three networks: six dishes, six bodies that are the number
  \<^verbatim>\<open>1e400\<close>, and the dishes with the third request rejected.
\<close>

definition page :: world where
  "page = \<lparr>localStorage = Map.empty, console = [], fetched = [],
            main_children = Some [], listeners = [], registered = [], room = 5242880\<rparr>"

definition full :: world where
  "full = page\<lparr>room := 0\<rparr>"

definition dish :: "string \<Rightarrow> jsval" where
  "dish url = Obj [(''name'', Str (''Dish '' @ take 1 (drop 34 url)))]"

definition dishes :: network where
  "dishes url = BodyParsed (dish url)"

definition huge :: network where
  "huge url = BodyParsed Infinity"

definition flaky :: network where
  "flaky url =
     (if url = ''https://introweb.tech/assets/json/3_moms-cornbread-stuffing.json''
      then FetchRejected (TypeError ''Failed to fetch'')
      else dishes url)"

text \<open>A browser without service workers, and one where registration succeeds.\<close>

definition unsupported :: navigator where
  "unsupported = \<lparr>serviceWorker = None\<rparr>"

definition supported :: navigator where
  "supported =
     \<lparr>serviceWorker = Some (\<lambda>script. Inr \<lparr>installing = True, waiting = False, active = False\<rparr>)\<rparr>"

text \<open>Storage that holds a saved collection, text that is not JSON, and the empty string.\<close>

definition menu :: "jsval list" where
  "menu = [Obj [(''name'', Str ''Dish 1'')], Obj [(''name'', Str ''Dish 2'')]]"

definition cached :: world where
  "cached = page\<lparr>localStorage := [''recipes'' \<mapsto> show_json (Arr menu)]\<rparr>"

definition corrupt :: world where
  "corrupt = page\<lparr>localStorage := [''recipes'' \<mapsto> ''not json'']\<rparr>"

definition blank :: world where
  "blank = page\<lparr>localStorage := [''recipes'' \<mapsto> []]\<rparr>"

section \<open>Lemmas\<close>

subsection \<open>Runs of the network part\<close>

lemma fold_reject_settled: "p \<noteq> Pending \<Longrightarrow> fold reject es p = p"
  by (induction es arbitrary: p) (auto simp: reject_def split: promise.splits)

lemma length_bodies_errors: "length (bodies net us) + length (errors net us) = length us"
  by (induction us) (auto split: response.splits)

lemma bodies_all_parsed: "\<forall>u\<in>set us. net u = BodyParsed (body u) \<Longrightarrow> bodies net us = map body us"
  by (induction us) auto

lemma errors_all_parsed: "\<forall>u\<in>set us. net u = BodyParsed (body u) \<Longrightarrow> errors net us = []"
  by (induction us) auto

lemma errors_nonempty: "u \<in> set us \<Longrightarrow> net u = FetchRejected e \<or> net u = BodyRejected e \<Longrightarrow> errors net us \<noteq> []"
  by (induction us) (auto split: response.splits)

lemma fold_complete_below:
  "finished l + length (bodies net us) < length RECIPE_URLS \<Longrightarrow>
   fold (complete J net) us (l, w) =
     (l\<lparr>recipes := recipes l @ bodies net us,
        finished := finished l + length (bodies net us),
        settled := fold reject (errors net us) (settled l)\<rparr>,
      w\<lparr>console := console w @ map LogError (errors net us)\<rparr>)"
proof (induction us arbitrary: l w)
  case Nil
  then show ?case by simp
next
  case (Cons u us)
  show ?case
  proof (cases "net u")
    case (BodyParsed v)
    with Cons.prems have lt: "Suc (finished l) + length (bodies net us) < length RECIPE_URLS"
      by simp
    then have step: "complete J net u (l, w) = (l\<lparr>recipes := recipes l @ [v], finished := finished l + 1\<rparr>, w)"
      using BodyParsed by (simp add: complete_def on_json_def Let_def)
    have "finished (l\<lparr>recipes := recipes l @ [v], finished := finished l + 1\<rparr>) + length (bodies net us) < length RECIPE_URLS"
      using lt by simp
    from Cons.IH[OF this] show ?thesis
      using BodyParsed step by simp
  next
    case (FetchRejected e)
    with Cons.prems have lt: "finished (l\<lparr>settled := reject e (settled l)\<rparr>) + length (bodies net us) < length RECIPE_URLS"
      by simp
    from Cons.IH[OF lt] show ?thesis
      using FetchRejected by (simp add: complete_def err_def console_error_def)
  next
    case (BodyRejected e)
    with Cons.prems have lt: "finished (l\<lparr>settled := reject e (settled l)\<rparr>) + length (bodies net us) < length RECIPE_URLS"
      by simp
    from Cons.IH[OF lt] show ?thesis
      using BodyRejected by (simp add: complete_def err_def console_error_def)
  qed
qed

lemma fetchRecipes_below:
  assumes "length (bodies net us) < length RECIPE_URLS"
  shows "fetchRecipes J net us w =
     (fold reject (errors net us) Pending,
      w\<lparr>fetched := fetched w @ RECIPE_URLS, console := console w @ map LogError (errors net us)\<rparr>)"
  using assms by (simp add: fetchRecipes_def fold_complete_below)

lemma schedule_length: "schedule us \<Longrightarrow> length us \<le> length RECIPE_URLS"
proof -
  assume s: "schedule us"
  then have "length us = card (set us)" by (simp add: schedule_def distinct_card)
  also have "\<dots> \<le> card (set RECIPE_URLS)" using s by (simp add: schedule_def card_mono)
  also have "\<dots> \<le> length RECIPE_URLS" by (rule card_length)
  finally show ?thesis .
qed

lemma bodies_short:
  assumes "schedule us" and "errors net us \<noteq> []"
  shows "length (bodies net us) < length RECIPE_URLS"
proof -
  have "0 < length (errors net us)" using assms(2) by simp
  then have "length (bodies net us) < length us" using length_bodies_errors[of net us] by arith
  with schedule_length[OF assms(1)] show ?thesis by arith
qed

lemma save_fits:
  "fits J rs w \<Longrightarrow>
   saveRecipesToStorage J rs w =
     Inr (w\<lparr>localStorage := (localStorage w)(''recipes'' \<mapsto> stringify J (Arr rs))\<rparr>)"
  by (simp add: saveRecipesToStorage_def setItem_def fits_def)

lemma save_full:
  "\<not> fits J rs w \<Longrightarrow> saveRecipesToStorage J rs w = Inl (DOMException ''QuotaExceededError'')"
  by (simp add: saveRecipesToStorage_def setItem_def fits_def)

lemma fold_complete_all:
  assumes len: "length us = length RECIPE_URLS"
      and ok: "\<forall>u\<in>set us. net u = BodyParsed (body u)"
  shows "\<exists>l. fold (complete J net) us (\<lparr>recipes = [], finished = 0, settled = Pending\<rparr>, w) =
           on_json J (body (last us)) (l, w)
         \<and> recipes l @ [body (last us)] = map body us
         \<and> finished l + 1 = length RECIPE_URLS
         \<and> settled l = Pending"
proof -
  have "us \<noteq> []" using len by (auto simp: RECIPE_URLS_def)
  then obtain xs x where us: "us = xs @ [x]"
    by (cases us rule: rev_cases) auto
  have okxs: "\<forall>u\<in>set xs. net u = BodyParsed (body u)" and x: "net x = BodyParsed (body x)"
    using ok us by auto
  have bx: "bodies net xs = map body xs" and ex: "errors net xs = []"
    using okxs bodies_all_parsed[of xs net body] errors_all_parsed[of xs net body] by simp_all
  have lt: "length xs < length RECIPE_URLS" using len us by simp
  let ?start = "\<lparr>recipes = [], finished = 0, settled = Pending\<rparr>"
  let ?mid = "\<lparr>recipes = map body xs, finished = length xs, settled = Pending\<rparr>"
  have pre: "fold (complete J net) xs (?start, w) = (?mid, w)"
    using lt by (simp add: fold_complete_below bx ex)
  have "fold (complete J net) us (?start, w) = on_json J (body (last us)) (?mid, w)"
    unfolding us using x by (simp add: pre complete_def)
  moreover have "recipes ?mid @ [body (last us)] = map body us" using us by simp
  moreover have "finished ?mid + 1 = length RECIPE_URLS" using len us by simp
  ultimately show ?thesis by (intro exI[of _ ?mid]) simp
qed

lemma fetchRecipes_all:
  assumes len: "length us = length RECIPE_URLS"
      and ok: "\<forall>u\<in>set us. net u = BodyParsed (body u)"
      and fit: "fits J (map body us) w"
  shows "fetchRecipes J net us w =
     (Fulfilled (Arr (map body us)),
      w\<lparr>fetched := fetched w @ RECIPE_URLS,
         localStorage := (localStorage w)(''recipes'' \<mapsto> stringify J (Arr (map body us)))\<rparr>)"
proof -
  let ?w0 = "w\<lparr>fetched := fetched w @ RECIPE_URLS\<rparr>"
  from fold_complete_all[OF len ok, of J ?w0] obtain l where
    run: "fold (complete J net) us (\<lparr>recipes = [], finished = 0, settled = Pending\<rparr>, ?w0) =
           on_json J (body (last us)) (l, ?w0)"
    and rs: "recipes l @ [body (last us)] = map body us"
    and n: "finished l + 1 = length RECIPE_URLS"
    and p: "settled l = Pending"
    by blast
  have "fits J (map body us) ?w0" using fit by (simp add: fits_def)
  then have "on_json J (body (last us)) (l, ?w0) =
      (l\<lparr>recipes := map body us, finished := length RECIPE_URLS,
         settled := Fulfilled (Arr (map body us))\<rparr>,
       ?w0\<lparr>localStorage := (localStorage ?w0)(''recipes'' \<mapsto> stringify J (Arr (map body us)))\<rparr>)"
    using rs n p by (simp add: on_json_def Let_def save_fits resolve_def)
  then show ?thesis
    unfolding fetchRecipes_def Let_def run by simp
qed

lemma fetchRecipes_all_full:
  assumes len: "length us = length RECIPE_URLS"
      and ok: "\<forall>u\<in>set us. net u = BodyParsed (body u)"
      and full: "\<not> fits J (map body us) w"
  shows "fetchRecipes J net us w =
     (Rejected (DOMException ''QuotaExceededError''),
      w\<lparr>fetched := fetched w @ RECIPE_URLS,
         console := console w @ [LogError (DOMException ''QuotaExceededError'')]\<rparr>)"
proof -
  let ?w0 = "w\<lparr>fetched := fetched w @ RECIPE_URLS\<rparr>"
  from fold_complete_all[OF len ok, of J ?w0] obtain l where
    run: "fold (complete J net) us (\<lparr>recipes = [], finished = 0, settled = Pending\<rparr>, ?w0) =
           on_json J (body (last us)) (l, ?w0)"
    and rs: "recipes l @ [body (last us)] = map body us"
    and n: "finished l + 1 = length RECIPE_URLS"
    and p: "settled l = Pending"
    by blast
  have "\<not> fits J (map body us) ?w0" using full by (simp add: fits_def)
  then have "on_json J (body (last us)) (l, ?w0) =
      (l\<lparr>recipes := map body us, finished := length RECIPE_URLS,
         settled := Rejected (DOMException ''QuotaExceededError'')\<rparr>,
       ?w0\<lparr>console := console ?w0 @ [LogError (DOMException ''QuotaExceededError'')]\<rparr>)"
    using rs n p by (simp add: on_json_def Let_def save_full err_def reject_def console_error_def)
  then show ?thesis
    unfolding fetchRecipes_def Let_def run by simp
qed

lemma distinct_RECIPE_URLS: "distinct RECIPE_URLS"
  by (simp add: RECIPE_URLS_def)

lemma complete_schedule:
  assumes "schedule us" and "set us = set RECIPE_URLS"
  shows "mset us = mset RECIPE_URLS"
  using assms distinct_RECIPE_URLS by (simp add: schedule_def set_eq_iff_mset_eq_distinct)

subsection \<open>What the network part leaves alone\<close>

lemma complete_frame:
  assumes "complete J net u (l, w) = (l', w')"
  shows "fetched w' = fetched w \<and> main_children w' = main_children w
       \<and> listeners w' = listeners w \<and> registered w' = registered w"
  using assms
  by (cases "net u")
     (auto simp: complete_def err_def on_json_def Let_def console_error_def
        saveRecipesToStorage_def setItem_def split: if_splits sum.splits)

lemma fold_complete_frame:
  assumes "fold (complete J net) us (l, w) = (l', w')"
  shows "fetched w' = fetched w \<and> main_children w' = main_children w
       \<and> listeners w' = listeners w \<and> registered w' = registered w"
  using assms
proof (induction us arbitrary: l w)
  case Nil
  then show ?case by simp
next
  case (Cons u us)
  obtain l1 w1 where s: "complete J net u (l, w) = (l1, w1)"
    by (cases "complete J net u (l, w)")
  with Cons.prems have "fold (complete J net) us (l1, w1) = (l', w')" by simp
  from Cons.IH[OF this] complete_frame[OF s] show ?case by simp
qed

lemma fetchRecipes_frame:
  assumes "fetchRecipes J net us w = (p, w')"
  shows "fetched w' = fetched w @ RECIPE_URLS \<and> main_children w' = main_children w
       \<and> listeners w' = listeners w \<and> registered w' = registered w"
proof -
  let ?start = "(\<lparr>recipes = [], finished = 0, settled = Pending\<rparr>, w\<lparr>fetched := fetched w @ RECIPE_URLS\<rparr>)"
  obtain l where "fold (complete J net) us ?start = (l, w')"
    using assms by (auto simp: fetchRecipes_def Let_def split: prod.splits)
  from fold_complete_frame[OF this] show ?thesis by simp
qed

lemma fetchRecipes_fetched: "fetched (snd (fetchRecipes J net us w)) = fetched w @ RECIPE_URLS"
  using fetchRecipes_frame[of J net us w] by (cases "fetchRecipes J net us w") simp

lemma getRecipes_main_children: "main_children (snd (getRecipes J net us w)) = main_children w"
proof (cases "fetchRecipes J net us w")
  case (Pair p w')
  from fetchRecipes_frame[OF this] Pair show ?thesis
    by (auto simp: getRecipes_def Let_def split: option.splits)
qed

lemma complete_listeners:
  "complete J net u (l, w\<lparr>listeners := L\<rparr>) =
     (case complete J net u (l, w) of (l', w') \<Rightarrow> (l', w'\<lparr>listeners := L\<rparr>))"
  by (cases "net u")
     (simp_all add: complete_def err_def on_json_def Let_def console_error_def
        saveRecipesToStorage_def setItem_def split: sum.splits)

lemma fold_complete_listeners:
  "fold (complete J net) us (l, w\<lparr>listeners := L\<rparr>) =
     (case fold (complete J net) us (l, w) of (l', w') \<Rightarrow> (l', w'\<lparr>listeners := L\<rparr>))"
proof (induction us arbitrary: l w)
  case Nil
  then show ?case by simp
next
  case (Cons u us)
  obtain l1 w1 where s: "complete J net u (l, w) = (l1, w1)"
    by (cases "complete J net u (l, w)")
  then show ?case using Cons.IH[of l1 w1] by (simp add: complete_listeners)
qed

lemma fetchRecipes_listeners:
  "fetchRecipes J net us (w\<lparr>listeners := L\<rparr>) =
     (case fetchRecipes J net us w of (p, w') \<Rightarrow> (p, w'\<lparr>listeners := L\<rparr>))"
proof -
  have eq: "w\<lparr>listeners := L\<rparr>\<lparr>fetched := fetched (w\<lparr>listeners := L\<rparr>) @ RECIPE_URLS\<rparr> =
      (w\<lparr>fetched := fetched w @ RECIPE_URLS\<rparr>)\<lparr>listeners := L\<rparr>"
    by simp
  show ?thesis
    unfolding fetchRecipes_def Let_def eq fold_complete_listeners
    by (simp split: prod.splits)
qed

lemma getRecipes_listeners:
  "getRecipes J net us (w\<lparr>listeners := L\<rparr>) =
     (case getRecipes J net us w of (p, w') \<Rightarrow> (p, w'\<lparr>listeners := L\<rparr>))"
  by (simp add: getRecipes_def getItem_def fetchRecipes_listeners split: option.splits)

lemma addRecipesToDocument_listeners:
  "addRecipesToDocument v (w\<lparr>listeners := L\<rparr>) =
     (case addRecipesToDocument v w of Inl e \<Rightarrow> Inl e | Inr w' \<Rightarrow> Inr (w'\<lparr>listeners := L\<rparr>))"
  by (cases v) (simp_all add: addRecipesToDocument_def split: sum.splits)

lemma initializeServiceWorker_listeners:
  "initializeServiceWorker nav w = w\<lparr>listeners := listeners (initializeServiceWorker nav w)\<rparr>"
  by (simp add: initializeServiceWorker_def)

lemma init_listeners:
  "init nav J net us w =
     (case init unsupported J net us w of
        (p, w') \<Rightarrow> (p, w'\<lparr>listeners := listeners (initializeServiceWorker nav w)\<rparr>))"
proof -
  let ?L = "listeners (initializeServiceWorker nav w)"
  have u: "initializeServiceWorker unsupported w = w"
    by (simp add: initializeServiceWorker_def unsupported_def)
  have n: "initializeServiceWorker nav w = w\<lparr>listeners := ?L\<rparr>"
    by (rule initializeServiceWorker_listeners)
  obtain p w2 where g: "getRecipes J net us w = (p, w2)"
    by (cases "getRecipes J net us w")
  then have g': "getRecipes J net us (w\<lparr>listeners := ?L\<rparr>) = (p, w2\<lparr>listeners := ?L\<rparr>)"
    by (simp add: getRecipes_listeners)
  have ce: "\<And>e. console_error e (w2\<lparr>listeners := ?L\<rparr>) = (console_error e w2)\<lparr>listeners := ?L\<rparr>"
    by (simp add: console_error_def)
  show ?thesis
    unfolding init_def Let_def u
    by (subst n) (simp add: g g' ce addRecipesToDocument_listeners
          split: promise.splits sum.splits)
qed

lemma dispatch_unsupported_registered:
  assumes "serviceWorker nav = None"
  shows "registered (dispatch nav ev w) = registered w"
proof -
  have step: "\<And>h w'. registered (run_handler nav h w') = registered w'"
    using assms by (case_tac h) (simp add: register_worker_def console_error_def)
  have "\<And>w'. registered (fold (\<lambda>(name, h) w'. if name = ev then run_handler nav h w' else w') hs w') = registered w'" for hs
    by (induction hs) (auto simp: step)
  then show ?thesis by (simp add: dispatch_def)
qed

lemma run_handler_frame:
  "localStorage (run_handler nav h w) = localStorage w
   \<and> fetched (run_handler nav h w) = fetched w
   \<and> main_children (run_handler nav h w) = main_children w"
  by (cases h)
     (simp add: register_worker_def console_error_def console_log_def console_error_text_def
        Let_def split: option.splits sum.splits)

lemma fold_handlers_frame:
  "localStorage (fold (\<lambda>(name, h) w'. if name = ev then run_handler nav h w' else w') hs w) = localStorage w
   \<and> fetched (fold (\<lambda>(name, h) w'. if name = ev then run_handler nav h w' else w') hs w) = fetched w
   \<and> main_children (fold (\<lambda>(name, h) w'. if name = ev then run_handler nav h w' else w') hs w) = main_children w"
  by (induction hs arbitrary: w) (auto simp: run_handler_frame)

lemma dispatch_frame:
  "localStorage (dispatch nav ev w) = localStorage w
   \<and> fetched (dispatch nav ev w) = fetched w
   \<and> main_children (dispatch nav ev w) = main_children w"
  unfolding dispatch_def by (rule fold_handlers_frame)

subsection \<open>The two paths of \<^verbatim>\<open>getRecipes\<close>\<close>

lemma getRecipes_miss: "localStorage w ''recipes'' = None \<Longrightarrow> getRecipes J net us w = fetchRecipes J net us w"
  by (simp add: getRecipes_def getItem_def)

lemma getRecipes_hit:
  assumes "localStorage w ''recipes'' = Some s" and "s \<noteq> []" and "parse J s = Some v"
  shows "getRecipes J net us w = (Fulfilled v, w)"
  using assms by (simp add: getRecipes_def getItem_def)

lemma forEach_append_Some: "forEach_append rs (Some cs) = Inr (Some (cs @ map recipe_card rs))"
  by (induction rs arbitrary: cs) auto

subsection \<open>The concrete runs\<close>

lemma read_empty: "parse JSON [] = None"
  by (simp add: JSON_def read_json_def skip_ws_def)

lemma read_menu: "parse JSON (show_json (Arr menu)) = Some (Arr menu)"
  by code_simp

lemma schedule_all: "schedule RECIPE_URLS"
  by (simp add: schedule_def distinct_RECIPE_URLS)

lemma schedule_rev: "schedule (rev RECIPE_URLS)"
  by (simp add: schedule_def distinct_RECIPE_URLS)

lemma dishes_parsed: "\<forall>u\<in>set RECIPE_URLS. dishes u = BodyParsed (dish u)"
  by (simp add: dishes_def)

lemma rev_dishes:
  "map dish (rev RECIPE_URLS) =
     [Obj [(''name'', Str ''Dish 6'')], Obj [(''name'', Str ''Dish 5'')],
      Obj [(''name'', Str ''Dish 4'')], Obj [(''name'', Str ''Dish 3'')],
      Obj [(''name'', Str ''Dish 2'')], Obj [(''name'', Str ''Dish 1'')]]"
  by (simp add: RECIPE_URLS_def dish_def)

lemma all_dishes:
  "map dish RECIPE_URLS =
     [Obj [(''name'', Str ''Dish 1'')], Obj [(''name'', Str ''Dish 2'')],
      Obj [(''name'', Str ''Dish 3'')], Obj [(''name'', Str ''Dish 4'')],
      Obj [(''name'', Str ''Dish 5'')], Obj [(''name'', Str ''Dish 6'')]]"
  by (simp add: RECIPE_URLS_def dish_def)

lemma read_rev_dishes:
  "parse JSON (stringify JSON (Arr (map dish (rev RECIPE_URLS)))) = Some (Arr (map dish (rev RECIPE_URLS)))"
  unfolding rev_dishes by code_simp

lemma full_never_fits: "\<not> fits J rs full"
  by (simp add: fits_def full_def page_def)

lemma dishes_fit_blank: "fits JSON (map dish RECIPE_URLS) blank"
  unfolding all_dishes fits_def by (simp add: JSON_def blank_def page_def show_string_def)

lemma rev_dishes_fit_page: "fits JSON (map dish (rev RECIPE_URLS)) page"
  unfolding rev_dishes fits_def by (simp add: JSON_def page_def show_string_def)

lemma menu_fits_page: "fits JSON menu page"
  unfolding fits_def by (simp add: JSON_def page_def menu_def show_string_def)

lemma flaky_errors: "errors flaky RECIPE_URLS = [TypeError ''Failed to fetch'']"
  by (simp add: RECIPE_URLS_def flaky_def dishes_def)

lemma flaky_bodies: "length (bodies flaky RECIPE_URLS) < length RECIPE_URLS"
  by (simp add: RECIPE_URLS_def flaky_def dishes_def)

lemma flaky_run:
  "localStorage w ''recipes'' = None \<Longrightarrow>
   getRecipes J flaky RECIPE_URLS w =
     (Rejected (TypeError ''Failed to fetch''),
      w\<lparr>fetched := fetched w @ RECIPE_URLS,
         console := console w @ [LogError (TypeError ''Failed to fetch'')]\<rparr>)"
  using flaky_bodies
  by (simp add: getRecipes_miss fetchRecipes_below flaky_errors reject_def)

section \<open>The properties\<close>

text \<open>
  C1 (cache hit). \<^verbatim>\<open>JSON.parse\<close> rejects the empty text. If the storage holds under
  \<^verbatim>\<open>"recipes"\<close> a string \<open>s\<close> that parses to \<open>C\<close>, then \<^verbatim>\<open>getRecipes\<close> is fulfilled with
  exactly \<open>C\<close>, whatever the network would do, and the page, its list of requests sent
  included, is as before.
\<close>

theorem getRecipes_cache_hit:
  assumes "parse J [] = None"
      and "localStorage w ''recipes'' = Some s"
      and "parse J s = Some C"
  shows "getRecipes J net order w = (Fulfilled C, w)
       \<and> fetched (snd (getRecipes J net order w)) = fetched w"
proof -
  have "s \<noteq> []" using assms(1,3) by auto
  with assms(2,3) have "getRecipes J net order w = (Fulfilled C, w)"
    by (simp add: getRecipes_hit)
  then show ?thesis by simp
qed

text \<open>
  The run for C1: the storage holds the text of two dishes and every request would fail
  or never complete.
\<close>

theorem getRecipes_cache_hit_witness:
  "parse JSON [] = None
   \<and> localStorage cached ''recipes'' = Some (show_json (Arr menu))
   \<and> parse JSON (show_json (Arr menu)) = Some (Arr menu)
   \<and> getRecipes JSON flaky RECIPE_URLS cached = (Fulfilled (Arr menu), cached)
   \<and> fetched (snd (getRecipes JSON flaky RECIPE_URLS cached)) = fetched cached
   \<and> fetched cached = []"
proof -
  have e: "parse JSON [] = None" by (rule read_empty)
  have s: "localStorage cached ''recipes'' = Some (show_json (Arr menu))"
    by (simp add: cached_def)
  have p: "parse JSON (show_json (Arr menu)) = Some (Arr menu)" by (rule read_menu)
  have f: "fetched cached = []" by (simp add: cached_def page_def)
  from getRecipes_cache_hit[OF e s p, of flaky RECIPE_URLS] e s p f show ?thesis by simp
qed

text \<open>
  C2 (all or nothing). The key \<^verbatim>\<open>"recipes"\<close> is absent, every chain completes at most once,
  and the chain of some URL \<open>u\<close> completes with a rejected request or a rejected body parse.
  Then the promise of \<^verbatim>\<open>getRecipes\<close> is rejected, with the first error in completion
  order, and the storage is as before: the key is still absent.
\<close>

theorem getRecipes_all_or_nothing:
  assumes "localStorage w ''recipes'' = None"
      and "schedule order"
      and "u \<in> set order"
      and "net u = FetchRejected e \<or> net u = BodyRejected e"
  shows "\<exists>e' es. errors net order = e' # es
           \<and> fst (getRecipes J net order w) = Rejected e'
           \<and> localStorage (snd (getRecipes J net order w)) = localStorage w
           \<and> localStorage (snd (getRecipes J net order w)) ''recipes'' = None"
proof -
  have "errors net order \<noteq> []"
    using assms(3,4) by (rule errors_nonempty)
  then obtain e' es where es: "errors net order = e' # es"
    by (cases "errors net order") auto
  then have "length (bodies net order) < length RECIPE_URLS"
    using bodies_short[OF assms(2)] by simp
  then have "getRecipes J net order w =
     (fold reject (errors net order) Pending,
      w\<lparr>fetched := fetched w @ RECIPE_URLS, console := console w @ map LogError (errors net order)\<rparr>)"
    using assms(1) by (simp add: getRecipes_miss fetchRecipes_below)
  then show ?thesis using es assms(1) by (simp add: reject_def fold_reject_settled)
qed

text \<open>
  The run for C2: the third request is rejected, the other five bodies parse.
\<close>

theorem getRecipes_all_or_nothing_witness:
  "localStorage page ''recipes'' = None
   \<and> schedule RECIPE_URLS
   \<and> flaky ''https://introweb.tech/assets/json/3_moms-cornbread-stuffing.json'' =
       FetchRejected (TypeError ''Failed to fetch'')
   \<and> fst (getRecipes JSON flaky RECIPE_URLS page) = Rejected (TypeError ''Failed to fetch'')
   \<and> localStorage (snd (getRecipes JSON flaky RECIPE_URLS page)) ''recipes'' = None"
proof -
  let ?u = "''https://introweb.tech/assets/json/3_moms-cornbread-stuffing.json''"
  have a: "localStorage page ''recipes'' = None" by (simp add: page_def)
  have b: "schedule RECIPE_URLS" by (rule schedule_all)
  have c: "?u \<in> set RECIPE_URLS" by (simp add: RECIPE_URLS_def)
  have d: "flaky ?u = FetchRejected (TypeError ''Failed to fetch'')" by (simp add: flaky_def)
  have d': "flaky ?u = FetchRejected (TypeError ''Failed to fetch'') \<or> flaky ?u = BodyRejected (TypeError ''Failed to fetch'')"
    using d by simp
  have es: "errors flaky RECIPE_URLS = [TypeError ''Failed to fetch'']"
    by (simp add: RECIPE_URLS_def flaky_def dishes_def)
  from getRecipes_all_or_nothing[where net = flaky and u = ?u and J = JSON, OF a b c d'] es a b d
  show ?thesis by auto
qed

text \<open>
  C3, amended (a miss fills the cache). The key is absent, the chain of each of the six
  URLs completes once, in any order, each with a parsed record, the storage has room for
  the serialized collection, and the collection survives \<^verbatim>\<open>JSON.stringify\<close> then
  \<^verbatim>\<open>JSON.parse\<close>. Then \<^verbatim>\<open>getRecipes\<close> is fulfilled with the records in completion order, a
  permutation of the six; six requests were sent; the storage holds a string that parses to
  that collection; and every later \<^verbatim>\<open>getRecipes\<close> is fulfilled with the same collection and
  leaves the page, its requests included, as it is.
\<close>

theorem getRecipes_miss_populates:
  assumes absent: "localStorage w ''recipes'' = None"
      and sched: "schedule order"
      and all: "set order = set RECIPE_URLS"
      and ok: "\<forall>u\<in>set RECIPE_URLS. net u = BodyParsed (body u)"
      and fit: "fits J (map body order) w"
      and empty: "parse J [] = None"
      and rt: "parse J (stringify J (Arr (map body order))) = Some (Arr (map body order))"
  shows "\<exists>w' s. getRecipes J net order w = (Fulfilled (Arr (map body order)), w')
           \<and> mset (map body order) = mset (map body RECIPE_URLS)
           \<and> fetched w' = fetched w @ RECIPE_URLS
           \<and> localStorage w' ''recipes'' = Some s
           \<and> parse J s = Some (Arr (map body order))
           \<and> (\<forall>net' order'. getRecipes J net' order' w' = (Fulfilled (Arr (map body order)), w'))"
proof -
  let ?rs = "map body order"
  let ?s = "stringify J (Arr ?rs)"
  let ?w' = "w\<lparr>fetched := fetched w @ RECIPE_URLS,
               localStorage := (localStorage w)(''recipes'' \<mapsto> ?s)\<rparr>"
  have perm: "mset order = mset RECIPE_URLS"
    using sched all by (rule complete_schedule)
  then have len: "length order = length RECIPE_URLS"
    by (rule mset_eq_length)
  have "\<forall>u\<in>set order. net u = BodyParsed (body u)" using ok all by simp
  with len fit have run: "getRecipes J net order w = (Fulfilled (Arr ?rs), ?w')"
    using absent by (simp add: getRecipes_miss fetchRecipes_all)
  have m: "mset ?rs = mset (map body RECIPE_URLS)"
    using perm by (metis mset_map)
  have f: "fetched ?w' = fetched w @ RECIPE_URLS"
    by simp
  have st: "localStorage ?w' ''recipes'' = Some ?s"
    by simp
  have ne: "?s \<noteq> []" using rt empty by auto
  have again: "\<forall>net' order'. getRecipes J net' order' ?w' = (Fulfilled (Arr ?rs), ?w')"
    using st ne rt by (simp add: getRecipes_hit)
  show ?thesis using run m f st rt again by blast
qed

text \<open>
  The run for C3 as amended: the six dishes of the specification's scenario, completing in
  reverse order, on a page whose storage has room.
\<close>

theorem getRecipes_miss_populates_witness:
  "localStorage page ''recipes'' = None
   \<and> schedule (rev RECIPE_URLS)
   \<and> set (rev RECIPE_URLS) = set RECIPE_URLS
   \<and> fits JSON (map dish (rev RECIPE_URLS)) page
   \<and> parse JSON [] = None
   \<and> fst (getRecipes JSON dishes (rev RECIPE_URLS) page) =
       Fulfilled (Arr [Obj [(''name'', Str ''Dish 6'')], Obj [(''name'', Str ''Dish 5'')],
                       Obj [(''name'', Str ''Dish 4'')], Obj [(''name'', Str ''Dish 3'')],
                       Obj [(''name'', Str ''Dish 2'')], Obj [(''name'', Str ''Dish 1'')]])
   \<and> fetched (snd (getRecipes JSON dishes (rev RECIPE_URLS) page)) = RECIPE_URLS
   \<and> getRecipes JSON flaky [] (snd (getRecipes JSON dishes (rev RECIPE_URLS) page)) =
       (fst (getRecipes JSON dishes (rev RECIPE_URLS) page),
        snd (getRecipes JSON dishes (rev RECIPE_URLS) page))"
proof -
  have a: "localStorage page ''recipes'' = None" by (simp add: page_def)
  have b: "schedule (rev RECIPE_URLS)" by (rule schedule_rev)
  have c: "set (rev RECIPE_URLS) = set RECIPE_URLS" by simp
  have d: "fits JSON (map dish (rev RECIPE_URLS)) page" by (rule rev_dishes_fit_page)
  have e: "parse JSON [] = None" by (rule read_empty)
  have f: "fetched page = []" by (simp add: page_def)
  from getRecipes_miss_populates[OF a b c dishes_parsed d e read_rev_dishes]
  obtain w' s where
    "getRecipes JSON dishes (rev RECIPE_URLS) page = (Fulfilled (Arr (map dish (rev RECIPE_URLS))), w')"
    "fetched w' = fetched page @ RECIPE_URLS"
    "\<forall>net' order'. getRecipes JSON net' order' w' = (Fulfilled (Arr (map dish (rev RECIPE_URLS))), w')"
    by blast
  then show ?thesis using a b c d e f by (simp add: rev_dishes)
qed

text \<open>
  C3 as first stated fails in two ways. On a page whose storage is full the six fetches
  succeed, but \<^verbatim>\<open>setItem\<close> throws inside the callback: \<^verbatim>\<open>err\<close> logs and rejects, the key
  stays absent, and the next \<^verbatim>\<open>getRecipes\<close> sends six requests more. And records that
  \<^verbatim>\<open>JSON.stringify\<close> does not keep come back changed: when each body is the number
  \<^verbatim>\<open>1e400\<close>, the first call returns six \<^verbatim>\<open>Infinity\<close>, which are stored as \<^verbatim>\<open>null\<close>, so
  the stored entry parses to six \<^verbatim>\<open>null\<close> and that is what the second call returns.
\<close>

theorem getRecipes_miss_populates_counterexample:
  "localStorage full ''recipes'' = None
   \<and> schedule RECIPE_URLS
   \<and> fst (getRecipes JSON dishes RECIPE_URLS full) = Rejected (DOMException ''QuotaExceededError'')
   \<and> localStorage (snd (getRecipes JSON dishes RECIPE_URLS full)) ''recipes'' = None
   \<and> fetched (snd (getRecipes JSON dishes RECIPE_URLS (snd (getRecipes JSON dishes RECIPE_URLS full)))) =
       RECIPE_URLS @ RECIPE_URLS
   \<and> localStorage page ''recipes'' = None
   \<and> fst (getRecipes JSON huge RECIPE_URLS page) =
       Fulfilled (Arr [Infinity, Infinity, Infinity, Infinity, Infinity, Infinity])
   \<and> localStorage (snd (getRecipes JSON huge RECIPE_URLS page)) ''recipes'' =
       Some ''[null,null,null,null,null,null]''
   \<and> fst (getRecipes JSON huge [] (snd (getRecipes JSON huge RECIPE_URLS page))) =
       Fulfilled (Arr [Null, Null, Null, Null, Null, Null])"
proof -
  let ?q = "DOMException ''QuotaExceededError''"
  let ?w1 = "full\<lparr>fetched := fetched full @ RECIPE_URLS, console := console full @ [LogError ?q]\<rparr>"
  have a: "localStorage full ''recipes'' = None" "fetched full = []"
    by (simp_all add: full_def page_def)
  have b: "schedule RECIPE_URLS" by (rule schedule_all)
  have "fetchRecipes JSON dishes RECIPE_URLS full = (Rejected ?q, ?w1)"
    by (rule fetchRecipes_all_full[where body = dish]) (simp_all add: dishes_def full_never_fits)
  then have r1: "getRecipes JSON dishes RECIPE_URLS full = (Rejected ?q, ?w1)"
    using a(1) by (simp add: getRecipes_miss)
  have a1: "localStorage ?w1 ''recipes'' = None" using a by simp
  have "\<not> fits JSON (map dish RECIPE_URLS) ?w1" by (simp add: fits_def full_def page_def)
  then have "fetchRecipes JSON dishes RECIPE_URLS ?w1 =
      (Rejected ?q, ?w1\<lparr>fetched := fetched ?w1 @ RECIPE_URLS, console := console ?w1 @ [LogError ?q]\<rparr>)"
    by (intro fetchRecipes_all_full[where body = dish]) (simp_all add: dishes_def)
  then have r2: "fetched (snd (getRecipes JSON dishes RECIPE_URLS ?w1)) = RECIPE_URLS @ RECIPE_URLS"
    using a1 a(2) by (simp add: getRecipes_miss)
  let ?six = "[Infinity, Infinity, Infinity, Infinity, Infinity, Infinity]"
  let ?t = "''[null,null,null,null,null,null]''"
  let ?w2 = "page\<lparr>fetched := fetched page @ RECIPE_URLS,
               localStorage := (localStorage page)(''recipes'' \<mapsto> ?t)\<rparr>"
  have p: "localStorage page ''recipes'' = None" by (simp add: page_def)
  have us: "map (\<lambda>u. Infinity) RECIPE_URLS = ?six"
    unfolding RECIPE_URLS_def list.map by (rule refl)
  have t: "stringify JSON (Arr ?six) = ?t"
    by (simp add: JSON_def)
  have ft: "fits JSON (map (\<lambda>u. Infinity) RECIPE_URLS) page"
    unfolding us fits_def t by (simp add: page_def)
  have "fetchRecipes JSON huge RECIPE_URLS page =
      (Fulfilled (Arr (map (\<lambda>u. Infinity) RECIPE_URLS)),
       page\<lparr>fetched := fetched page @ RECIPE_URLS,
            localStorage := (localStorage page)
              (''recipes'' \<mapsto> stringify JSON (Arr (map (\<lambda>u. Infinity) RECIPE_URLS)))\<rparr>)"
    using ft by (intro fetchRecipes_all[where body = "\<lambda>u. Infinity"]) (simp_all add: huge_def)
  then have "fetchRecipes JSON huge RECIPE_URLS page = (Fulfilled (Arr ?six), ?w2)"
    unfolding us t .
  then have r3: "getRecipes JSON huge RECIPE_URLS page = (Fulfilled (Arr ?six), ?w2)"
    using p by (simp add: getRecipes_miss)
  have rd: "parse JSON ?t = Some (Arr [Null, Null, Null, Null, Null, Null])"
    by code_simp
  have st: "localStorage ?w2 ''recipes'' = Some ?t" by simp
  have r4: "getRecipes JSON huge [] ?w2 = (Fulfilled (Arr [Null, Null, Null, Null, Null, Null]), ?w2)"
    using st rd by (intro getRecipes_hit) simp_all
  have c1: "fst (getRecipes JSON dishes RECIPE_URLS full) = Rejected ?q"
    by (simp add: r1)
  have c2: "localStorage (snd (getRecipes JSON dishes RECIPE_URLS full)) ''recipes'' = None"
    using a1 by (simp add: r1)
  have c3: "fetched (snd (getRecipes JSON dishes RECIPE_URLS (snd (getRecipes JSON dishes RECIPE_URLS full)))) =
       RECIPE_URLS @ RECIPE_URLS"
    using r2 by (simp add: r1)
  have c4: "fst (getRecipes JSON huge RECIPE_URLS page) = Fulfilled (Arr ?six)"
    by (simp add: r3)
  have c5: "localStorage (snd (getRecipes JSON huge RECIPE_URLS page)) ''recipes'' = Some ?t"
    using st by (simp add: r3)
  have c6: "fst (getRecipes JSON huge [] (snd (getRecipes JSON huge RECIPE_URLS page))) =
       Fulfilled (Arr [Null, Null, Null, Null, Null, Null])"
    using r4 by (simp add: r3)
  show ?thesis
    using a(1) b p c1 c2 c3 c4 c5 c6 by blast
qed

text \<open>
  C4, amended (corrupt cache). If the storage holds under \<^verbatim>\<open>"recipes"\<close> a string that is
  not empty and that \<^verbatim>\<open>JSON.parse\<close> rejects, then \<^verbatim>\<open>getRecipes\<close> is fulfilled with the empty
  array and sends no request.
\<close>

theorem getRecipes_corrupt_cache:
  assumes "localStorage w ''recipes'' = Some s" and "s \<noteq> []" and "parse J s = None"
  shows "getRecipes J net order w = (Fulfilled (Arr []), w)
       \<and> fetched (snd (getRecipes J net order w)) = fetched w"
  using assms by (simp add: getRecipes_def getItem_def)

text \<open>
  The run for C4 as amended: the storage holds \<^verbatim>\<open>not json\<close>.
\<close>

theorem getRecipes_corrupt_cache_witness:
  "localStorage corrupt ''recipes'' = Some ''not json''
   \<and> parse JSON ''not json'' = None
   \<and> getRecipes JSON dishes RECIPE_URLS corrupt = (Fulfilled (Arr []), corrupt)
   \<and> fetched (snd (getRecipes JSON dishes RECIPE_URLS corrupt)) = []"
proof -
  have a: "localStorage corrupt ''recipes'' = Some ''not json''" by (simp add: corrupt_def)
  have b: "''not json'' \<noteq> []" by simp
  have c: "parse JSON ''not json'' = None" by code_simp
  have f: "fetched corrupt = []" by (simp add: corrupt_def page_def)
  from getRecipes_corrupt_cache[OF a b c, of dishes RECIPE_URLS] a c f show ?thesis by simp
qed

text \<open>
  C4 as first stated, for every string that is not JSON, fails at the empty string:
  \<^verbatim>\<open>JSON.parse\<close> rejects it, yet \<^verbatim>\<open>if (recipes)\<close> is false for it, so six requests are
  sent; the result is the six fetched dishes when all chains complete, and a promise that
  stays pending when none does, not the empty array.
\<close>

theorem getRecipes_corrupt_cache_counterexample:
  "localStorage blank ''recipes'' = Some []
   \<and> parse JSON [] = None
   \<and> fst (getRecipes JSON dishes RECIPE_URLS blank) =
       Fulfilled (Arr [Obj [(''name'', Str ''Dish 1'')], Obj [(''name'', Str ''Dish 2'')],
                       Obj [(''name'', Str ''Dish 3'')], Obj [(''name'', Str ''Dish 4'')],
                       Obj [(''name'', Str ''Dish 5'')], Obj [(''name'', Str ''Dish 6'')]])
   \<and> fetched (snd (getRecipes JSON dishes RECIPE_URLS blank)) = RECIPE_URLS
   \<and> fst (getRecipes JSON dishes [] blank) = Pending
   \<and> fetched (snd (getRecipes JSON dishes [] blank)) = RECIPE_URLS"
proof -
  have a: "localStorage blank ''recipes'' = Some []" by (simp add: blank_def)
  have f: "fetched blank = []" by (simp add: blank_def page_def)
  have g: "\<And>us. getRecipes JSON dishes us blank = fetchRecipes JSON dishes us blank"
    using a by (simp add: getRecipes_def getItem_def)
  have h: "fetchRecipes JSON dishes RECIPE_URLS blank =
      (Fulfilled (Arr (map dish RECIPE_URLS)),
       blank\<lparr>fetched := fetched blank @ RECIPE_URLS,
             localStorage := (localStorage blank)(''recipes'' \<mapsto> stringify JSON (Arr (map dish RECIPE_URLS)))\<rparr>)"
    using dishes_parsed dishes_fit_blank by (intro fetchRecipes_all) simp_all
  have i: "fst (fetchRecipes JSON dishes [] blank) = Pending"
    by (simp add: fetchRecipes_def)
  show ?thesis
    using a read_empty f i by (simp add: g h all_dishes fetchRecipes_fetched)
qed

text \<open>
  C5 (failure is contained). If the promise of \<^verbatim>\<open>getRecipes\<close> is rejected with \<open>e\<close>, then
  \<^verbatim>\<open>init\<close> logs \<open>e\<close> to the console, calls \<^verbatim>\<open>addRecipesToDocument\<close> with \<^verbatim>\<open>undefined\<close>,
  which changes nothing, and is fulfilled; the children of \<^verbatim>\<open><main>\<close> are those the
  page started with.
\<close>

theorem init_contains_failure:
  assumes "getRecipes J net order (initializeServiceWorker nav w) = (Rejected e, w2)"
  shows "init nav J net order w = (Fulfilled Undefined, console_error e w2)
       \<and> addRecipesToDocument Undefined (console_error e w2) = Inr (console_error e w2)
       \<and> console (console_error e w2) = console w2 @ [LogError e]
       \<and> main_children (snd (init nav J net order w)) = main_children w"
proof -
  have a: "addRecipesToDocument Undefined (console_error e w2) = Inr (console_error e w2)"
    by (simp add: addRecipesToDocument_def)
  have b: "init nav J net order w = (Fulfilled Undefined, console_error e w2)"
    using assms a by (simp add: init_def Let_def)
  have "main_children w2 = main_children (initializeServiceWorker nav w)"
    using getRecipes_main_children[of J net order "initializeServiceWorker nav w"] assms by simp
  then have c: "main_children w2 = main_children w"
    by (simp add: initializeServiceWorker_def)
  show ?thesis using a b c by (simp add: console_error_def)
qed

text \<open>
  The run for C5: the third request is rejected; the error is logged by \<^verbatim>\<open>err\<close> and by
  \<^verbatim>\<open>init\<close>, and \<^verbatim>\<open><main>\<close> stays empty.
\<close>

theorem init_contains_failure_witness:
  "fst (getRecipes JSON flaky RECIPE_URLS (initializeServiceWorker supported page)) =
     Rejected (TypeError ''Failed to fetch'')
   \<and> fst (init supported JSON flaky RECIPE_URLS page) = Fulfilled Undefined
   \<and> console (snd (init supported JSON flaky RECIPE_URLS page)) =
       [LogError (TypeError ''Failed to fetch''), LogError (TypeError ''Failed to fetch'')]
   \<and> main_children (snd (init supported JSON flaky RECIPE_URLS page)) = Some []"
proof -
  let ?w1 = "initializeServiceWorker supported page"
  let ?e = "TypeError ''Failed to fetch''"
  let ?w2 = "?w1\<lparr>fetched := fetched ?w1 @ RECIPE_URLS, console := console ?w1 @ [LogError ?e]\<rparr>"
  have a: "localStorage ?w1 ''recipes'' = None"
    by (simp add: initializeServiceWorker_def page_def)
  have g: "getRecipes JSON flaky RECIPE_URLS ?w1 = (Rejected ?e, ?w2)"
    using a by (rule flaky_run)
  have c: "console ?w1 = []" "main_children page = Some []" "main_children ?w1 = Some []"
    by (simp_all add: initializeServiceWorker_def page_def)
  from init_contains_failure[OF g] g c show ?thesis
    by (simp add: console_error_def)
qed

text \<open>
  C6 (render order). On a document with a \<^verbatim>\<open><main>\<close>, \<^verbatim>\<open>addRecipesToDocument\<close> with an
  array of \<open>n\<close> records appends \<open>n\<close> \<^verbatim>\<open>recipe-card\<close> elements after the children already
  there, in the order of the array, the \<open>i\<close>-th of them with the \<open>i\<close>-th record as its data.
\<close>

theorem addRecipesToDocument_order:
  assumes "main_children w = Some cs"
  shows "addRecipesToDocument (Arr rs) w = Inr (w\<lparr>main_children := Some (cs @ map recipe_card rs)\<rparr>)
       \<and> length (map recipe_card rs) = length rs
       \<and> (\<forall>i<length rs. data (map recipe_card rs ! i) = rs ! i
                           \<and> tag (map recipe_card rs ! i) = ''recipe-card'')"
  using assms by (simp add: addRecipesToDocument_def forEach_append_Some recipe_card_def)

text \<open>
  The run for C6: three records on an empty \<^verbatim>\<open><main>\<close>.
\<close>

theorem addRecipesToDocument_order_witness:
  "main_children page = Some []
   \<and> addRecipesToDocument (Arr [Str ''r1'', Str ''r2'', Str ''r3'']) page =
       Inr (page\<lparr>main_children :=
              Some [\<lparr>tag = ''recipe-card'', data = Str ''r1''\<rparr>,
                    \<lparr>tag = ''recipe-card'', data = Str ''r2''\<rparr>,
                    \<lparr>tag = ''recipe-card'', data = Str ''r3''\<rparr>]\<rparr>)"
proof -
  have a: "main_children page = Some []" by (simp add: page_def)
  from addRecipesToDocument_order[OF a, of "[Str ''r1'', Str ''r2'', Str ''r3'']"] a
  show ?thesis by (simp add: recipe_card_def)
qed

text \<open>
  C7 (render nothing). \<^verbatim>\<open>addRecipesToDocument(undefined)\<close> returns with the page unchanged.
\<close>

theorem addRecipesToDocument_nothing:
  "addRecipesToDocument Undefined w = Inr w"
  by (simp add: addRecipesToDocument_def)

text \<open>
  The run for C7, on the fresh page.
\<close>

theorem addRecipesToDocument_nothing_witness:
  "addRecipesToDocument Undefined page = Inr page
   \<and> main_children page = Some []"
  using addRecipesToDocument_nothing[of page] by (simp add: page_def)

text \<open>
  C8 (worker registrar). Without \<^verbatim>\<open>serviceWorker\<close> in \<^verbatim>\<open>navigator\<close>,
  \<^verbatim>\<open>initializeServiceWorker\<close> leaves the page as it is: no listener is added, and the
  \<^verbatim>\<open>load\<close> event registers no worker. And with any two navigators \<^verbatim>\<open>init\<close> ends the same
  way with the same storage, requests, children of \<^verbatim>\<open><main>\<close> and console, and the
  \<^verbatim>\<open>load\<close> event, whatever its listeners do, leaves storage, requests and \<^verbatim>\<open><main>\<close> alone.
\<close>

theorem initializeServiceWorker_guard:
  "(serviceWorker nav = None \<longrightarrow>
      initializeServiceWorker nav w = w
    \<and> listeners (initializeServiceWorker nav w) = listeners w
    \<and> registered (dispatch nav ''load'' (initializeServiceWorker nav w)) = registered w)
   \<and> fst (init nav J net order w) = fst (init nav' J net order w)
   \<and> localStorage (snd (init nav J net order w)) = localStorage (snd (init nav' J net order w))
   \<and> fetched (snd (init nav J net order w)) = fetched (snd (init nav' J net order w))
   \<and> main_children (snd (init nav J net order w)) = main_children (snd (init nav' J net order w))
   \<and> console (snd (init nav J net order w)) = console (snd (init nav' J net order w))
   \<and> localStorage (dispatch nav ''load'' w) = localStorage w
   \<and> fetched (dispatch nav ''load'' w) = fetched w
   \<and> main_children (dispatch nav ''load'' w) = main_children w"
proof -
  have a: "serviceWorker nav = None \<longrightarrow>
      initializeServiceWorker nav w = w
    \<and> listeners (initializeServiceWorker nav w) = listeners w
    \<and> registered (dispatch nav ''load'' (initializeServiceWorker nav w)) = registered w"
    by (simp add: initializeServiceWorker_def dispatch_unsupported_registered)
  obtain p w' where b: "init unsupported J net order w = (p, w')"
    by (cases "init unsupported J net order w")
  have c: "fst (init nav J net order w) = fst (init nav' J net order w)
   \<and> localStorage (snd (init nav J net order w)) = localStorage (snd (init nav' J net order w))
   \<and> fetched (snd (init nav J net order w)) = fetched (snd (init nav' J net order w))
   \<and> main_children (snd (init nav J net order w)) = main_children (snd (init nav' J net order w))
   \<and> console (snd (init nav J net order w)) = console (snd (init nav' J net order w))"
    using init_listeners[of nav J net order w] init_listeners[of nav' J net order w] b
    by simp
  show ?thesis using a c dispatch_frame[of nav "''load''" w] by blast
qed

text \<open>
  The run for C8: a browser without service workers beside one that has them, where the
  listener is added and the \<^verbatim>\<open>load\<close> event registers \<^verbatim>\<open>./sw.js\<close>.
\<close>

theorem initializeServiceWorker_guard_witness:
  "serviceWorker unsupported = None
   \<and> initializeServiceWorker unsupported page = page
   \<and> listeners (initializeServiceWorker unsupported page) = []
   \<and> registered (dispatch unsupported ''load'' (initializeServiceWorker unsupported page)) = []
   \<and> listeners (initializeServiceWorker supported page) = [(''load'', RegisterWorker)]
   \<and> registered (dispatch supported ''load'' (initializeServiceWorker supported page)) = [''./sw.js'']
   \<and> fst (init unsupported JSON dishes RECIPE_URLS page) = fst (init supported JSON dishes RECIPE_URLS page)
   \<and> main_children (snd (init unsupported JSON dishes RECIPE_URLS page)) =
       main_children (snd (init supported JSON dishes RECIPE_URLS page))
   \<and> localStorage (snd (init unsupported JSON dishes RECIPE_URLS page)) =
       localStorage (snd (init supported JSON dishes RECIPE_URLS page))"
proof -
  have a: "serviceWorker unsupported = None" by (simp add: unsupported_def)
  have b: "listeners page = []" "registered page = []" by (simp_all add: page_def)
  have c: "listeners (initializeServiceWorker supported page) = [(''load'', RegisterWorker)]"
    by (simp add: initializeServiceWorker_def supported_def page_def)
  have d: "registered (dispatch supported ''load'' (initializeServiceWorker supported page)) = [''./sw.js'']"
    by (simp add: dispatch_def c register_worker_def supported_def initializeServiceWorker_def page_def
          console_log_def)
  note t = initializeServiceWorker_guard[of unsupported page JSON dishes RECIPE_URLS supported]
  have t1: "initializeServiceWorker unsupported page = page"
    using t a by blast
  have t2: "listeners (initializeServiceWorker unsupported page) = []"
    using t a b(1) by metis
  have t3: "registered (dispatch unsupported ''load'' (initializeServiceWorker unsupported page)) = []"
    using t a b(2) by metis
  have t4: "fst (init unsupported JSON dishes RECIPE_URLS page) = fst (init supported JSON dishes RECIPE_URLS page)"
    using t by blast
  have t5: "main_children (snd (init unsupported JSON dishes RECIPE_URLS page)) =
       main_children (snd (init supported JSON dishes RECIPE_URLS page))"
    using t by blast
  have t6: "localStorage (snd (init unsupported JSON dishes RECIPE_URLS page)) =
       localStorage (snd (init supported JSON dishes RECIPE_URLS page))"
    using t by blast
  show ?thesis using a t1 t2 t3 c d t4 t5 t6 by blast
qed

text \<open>
  C9 (the empty string is a miss). If the storage holds the empty string under
  \<^verbatim>\<open>"recipes"\<close>, \<^verbatim>\<open>getRecipes\<close> takes the network path: it sends the six requests and
  does not answer with the empty array on an untouched page.
\<close>

theorem getRecipes_empty_string_is_miss:
  assumes "localStorage w ''recipes'' = Some []"
  shows "getRecipes J net order w = fetchRecipes J net order w
       \<and> fetched (snd (getRecipes J net order w)) = fetched w @ RECIPE_URLS
       \<and> length RECIPE_URLS = 6
       \<and> getRecipes J net order w \<noteq> (Fulfilled (Arr []), w)"
proof -
  have a: "getRecipes J net order w = fetchRecipes J net order w"
    using assms by (simp add: getRecipes_def getItem_def)
  have b: "fetched (snd (fetchRecipes J net order w)) = fetched w @ RECIPE_URLS"
    by (rule fetchRecipes_fetched)
  have c: "length RECIPE_URLS = 6" by (simp add: RECIPE_URLS_def)
  have "fetched (snd (fetchRecipes J net order w)) \<noteq> fetched w"
    using b c by (cases RECIPE_URLS) auto
  then have d: "fetchRecipes J net order w \<noteq> (Fulfilled (Arr []), w)" by auto
  show ?thesis using a b c d by simp
qed

text \<open>
  The run for C9: no chain completes, so six requests are out and the promise is pending.
\<close>

theorem getRecipes_empty_string_is_miss_witness:
  "localStorage blank ''recipes'' = Some []
   \<and> getRecipes JSON dishes [] blank = (Pending, blank\<lparr>fetched := RECIPE_URLS\<rparr>)
   \<and> fetched (snd (getRecipes JSON dishes [] blank)) = RECIPE_URLS"
proof -
  have a: "localStorage blank ''recipes'' = Some []" by (simp add: blank_def)
  have f: "fetched blank = []" by (simp add: blank_def page_def)
  have g: "fetchRecipes JSON dishes [] blank = (Pending, blank\<lparr>fetched := RECIPE_URLS\<rparr>)"
    by (simp add: fetchRecipes_def f)
  from getRecipes_empty_string_is_miss[OF a, of JSON dishes "[]"] a f g show ?thesis by simp
qed

text \<open>
  C10, amended (round trip). \<^verbatim>\<open>JSON.parse\<close> rejects the empty text. For an array \<open>r\<close> whose
  serialization parses back to it and for which the storage has room,
  \<^verbatim>\<open>saveRecipesToStorage(r)\<close> returns, and \<^verbatim>\<open>getRecipes\<close> after it is fulfilled with \<open>r\<close> and
  sends no request.
\<close>

theorem save_then_getRecipes:
  assumes "parse J [] = None"
      and "parse J (stringify J (Arr r)) = Some (Arr r)"
      and "fits J r w"
  shows "\<exists>w'. saveRecipesToStorage J r w = Inr w'
           \<and> getRecipes J net order w' = (Fulfilled (Arr r), w')
           \<and> fetched (snd (getRecipes J net order w')) = fetched w"
proof -
  let ?w = "w\<lparr>localStorage := (localStorage w)(''recipes'' \<mapsto> stringify J (Arr r))\<rparr>"
  have sv: "saveRecipesToStorage J r w = Inr ?w"
    using assms(3) by (rule save_fits)
  have st: "localStorage ?w ''recipes'' = Some (stringify J (Arr r))"
    by simp
  have ne: "stringify J (Arr r) \<noteq> []" using assms(1,2) by auto
  have g: "getRecipes J net order ?w = (Fulfilled (Arr r), ?w)"
    using st ne assms(2) by (rule getRecipes_hit)
  have "fetched (snd (getRecipes J net order ?w)) = fetched w"
    by (simp add: g)
  with sv g show ?thesis by blast
qed

text \<open>
  The run for C10 as amended: two dishes are saved on a page whose storage has room, and
  every request would fail or never complete.
\<close>

theorem save_then_getRecipes_witness:
  "parse JSON [] = None
   \<and> parse JSON (stringify JSON (Arr menu)) = Some (Arr menu)
   \<and> fits JSON menu page
   \<and> saveRecipesToStorage JSON menu page =
       Inr (page\<lparr>localStorage := [''recipes'' \<mapsto> stringify JSON (Arr menu)]\<rparr>)
   \<and> fst (getRecipes JSON flaky RECIPE_URLS
            (page\<lparr>localStorage := [''recipes'' \<mapsto> stringify JSON (Arr menu)]\<rparr>)) = Fulfilled (Arr menu)
   \<and> fetched (snd (getRecipes JSON flaky RECIPE_URLS
            (page\<lparr>localStorage := [''recipes'' \<mapsto> stringify JSON (Arr menu)]\<rparr>))) = []"
proof -
  let ?w = "page\<lparr>localStorage := [''recipes'' \<mapsto> stringify JSON (Arr menu)]\<rparr>"
  have e: "parse JSON [] = None" by (rule read_empty)
  have p: "parse JSON (stringify JSON (Arr menu)) = Some (Arr menu)"
    using read_menu by (simp add: JSON_def)
  have q: "fits JSON menu page" by (rule menu_fits_page)
  have f: "fetched page = []" "localStorage page = Map.empty" by (simp_all add: page_def)
  have sv: "saveRecipesToStorage JSON menu page = Inr ?w"
    using save_fits[OF q] f(2) by simp
  from save_then_getRecipes[OF e p q, of flaky RECIPE_URLS] obtain w' where
    "saveRecipesToStorage JSON menu page = Inr w'"
    "getRecipes JSON flaky RECIPE_URLS w' = (Fulfilled (Arr menu), w')"
    "fetched (snd (getRecipes JSON flaky RECIPE_URLS w')) = fetched page"
    by blast
  then show ?thesis using e p q f(1) sv by simp
qed

text \<open>
  C10 as first stated, for every round-tripping array and every page, fails on a page whose
  storage is full: \<^verbatim>\<open>saveRecipesToStorage\<close> throws and stores nothing, so \<^verbatim>\<open>getRecipes\<close>
  finds no entry and sends the six requests; here the third is rejected and so is the
  promise.
\<close>

theorem save_then_getRecipes_counterexample:
  "parse JSON [] = None
   \<and> parse JSON (stringify JSON (Arr menu)) = Some (Arr menu)
   \<and> saveRecipesToStorage JSON menu full = Inl (DOMException ''QuotaExceededError'')
   \<and> localStorage full ''recipes'' = None
   \<and> fst (getRecipes JSON flaky RECIPE_URLS full) = Rejected (TypeError ''Failed to fetch'')
   \<and> fetched (snd (getRecipes JSON flaky RECIPE_URLS full)) = RECIPE_URLS"
proof -
  have e: "parse JSON [] = None" by (rule read_empty)
  have p: "parse JSON (stringify JSON (Arr menu)) = Some (Arr menu)"
    using read_menu by (simp add: JSON_def)
  have sv: "saveRecipesToStorage JSON menu full = Inl (DOMException ''QuotaExceededError'')"
    using full_never_fits by (rule save_full)
  have a: "localStorage full ''recipes'' = None" "fetched full = []"
    by (simp_all add: full_def page_def)
  have g: "getRecipes JSON flaky RECIPE_URLS full =
     (Rejected (TypeError ''Failed to fetch''),
      full\<lparr>fetched := fetched full @ RECIPE_URLS,
           console := console full @ [LogError (TypeError ''Failed to fetch'')]\<rparr>)"
    using a(1) by (rule flaky_run)
  show ?thesis using e p sv a by (simp add: g)
qed

end
